theory Spec2Isabelle
  imports Complex_Main "HOL-Library.AList" "HOL-Library.Product_Lexorder"
begin

section \<open>Python values used by ofblockmeshdicthelper\<close>

text \<open>
  The module is a set of classes whose instances are mutable objects shared by reference.
  Objects that the code mutates after construction (\<open>Vertex\<close> instances and the face lists of
  \<open>Boundary\<close>) live in an explicit store indexed by addresses; the dictionaries of
  \<open>BlockMeshDict\<close> hold addresses or immutable values. Exceptions are values of
  \<open>py_error\<close>.
\<close>

datatype py_error = KeyError | IndexError | AttributeError

type_synonym addr = nat

text \<open>
  The subscript \<open>seq[i]\<close> of a list or tuple by an integer: \<open>i\<close> may run from \<open>-len(seq)\<close> to
  \<open>len(seq) - 1\<close>, a negative \<open>i\<close> standing for \<open>len(seq) + i\<close>.
\<close>

definition getitem :: "'a list \<Rightarrow> int \<Rightarrow> py_error + 'a" where
  "getitem xs i =
     (if i < - int (length xs) \<or> int (length xs) \<le> i then Inl IndexError
      else Inr (xs ! nat (if i < 0 then i + int (length xs) else i)))"

text \<open>\<open>[seq[i] for i in idxs]\<close>: the first failing subscript raises.\<close>

fun getitems :: "'a list \<Rightarrow> int list \<Rightarrow> py_error + 'a list" where
  "getitems xs [] = Inr []"
| "getitems xs (i # is) =
     (case getitem xs i of
        Inl e \<Rightarrow> Inl e
      | Inr v \<Rightarrow> (case getitems xs is of Inl e \<Rightarrow> Inl e | Inr vs \<Rightarrow> Inr (v # vs)))"

text \<open>\<open>tmpl.format(arg)\<close> for a template with one \<open>{}\<close> field and a string argument.\<close>

fun str_format :: "string \<Rightarrow> string \<Rightarrow> string" where
  "str_format [] arg = []"
| "str_format (c # cs) arg =
     (if c = CHR ''{'' \<and> take 1 cs = ''}'' then arg @ drop 1 cs else c # str_format cs arg)"

text \<open>\<open>sep.join(strs)\<close>.\<close>

fun join :: "string \<Rightarrow> string list \<Rightarrow> string" where
  "join sep [] = []"
| "join sep [s] = s"
| "join sep (s # t # ts) = s @ sep @ join sep (t # ts)"

text \<open>\<open>str(n)\<close> for a non-negative integer, and \<open>str\<close> of an index that may be \<open>None\<close>.\<close>

fun str_nat :: "nat \<Rightarrow> string" where
  "str_nat n =
     (if n < 10 then [char_of (48 + n)] else str_nat (n div 10) @ [char_of (48 + n mod 10)])"

definition str_index :: "nat option \<Rightarrow> string" where
  "str_index i = (case i of None \<Rightarrow> ''None'' | Some n \<Rightarrow> str_nat n)"

section \<open>Vertex\<close>

text \<open>
  Coordinates are Python numbers; they are only stored and compared, so they are modelled
  as reals (a finite float or an int is the real number it denotes).
\<close>

record Vertex =
  vertex_x :: real
  vertex_y :: real
  vertex_z :: real
  vertex_name :: string
  vertex_alias :: "string set"
  vertex_index :: "nat option"

text \<open>\<open>Vertex.__init__\<close>: the \<open>index\<close> argument is ignored, the index starts as \<open>None\<close>.\<close>

definition Vertex_init :: "real \<Rightarrow> real \<Rightarrow> real \<Rightarrow> string \<Rightarrow> Vertex" where
  "Vertex_init x y z name =
     \<lparr>vertex_x = x, vertex_y = y, vertex_z = z, vertex_name = name,
      vertex_alias = {name}, vertex_index = None\<rparr>"

text \<open>
  \<open>Vertex.__lt__\<close>: a comparison of two triples, lexicographic as Python compares tuples
  (the order of \<open>HOL-Library.Product_Lexorder\<close>). The right-hand triple is
  \<open>(rhs.z, rhs.y, rhs.z)\<close>, as in the source.
\<close>

definition Vertex_lt :: "Vertex \<Rightarrow> Vertex \<Rightarrow> bool" where
  "Vertex_lt self rhs \<longleftrightarrow>
     (vertex_z self, vertex_y self, vertex_x self) < (vertex_z rhs, vertex_y rhs, vertex_z rhs)"

text \<open>The key the sort is meant to use: \<open>(z, y, x)\<close>.\<close>

definition zyx :: "Vertex \<Rightarrow> real \<times> real \<times> real" where
  "zyx v = (vertex_z v, vertex_y v, vertex_x v)"

text \<open>
  \<open>Vertex.format\<close>. Two built-ins of Python are parameters: \<open>fmt_g\<close> is
  \<open>'{:18.15g}'.format\<close> on a number, and \<open>iter_set\<close> is the order in which a set of
  strings is iterated.
\<close>

definition Vertex_format :: "(real \<Rightarrow> string) \<Rightarrow> (string set \<Rightarrow> string list) \<Rightarrow> Vertex \<Rightarrow> string" where
  "Vertex_format fmt_g iter_set self =
     (let com = str_index (vertex_index self) @ '' '' @ vertex_name self;
          com = (if card (vertex_alias self) > 1
                 then com @ '' : '' @ join '' '' (iter_set (vertex_alias self)) else com)
      in ''( '' @ fmt_g (vertex_x self) @ '' '' @ fmt_g (vertex_y self) @ '' '' @
         fmt_g (vertex_z self) @ '' )  // '' @ com)"

section \<open>Face and HexBlock\<close>

record Face =
  face_vnames :: "string list"
  face_name :: string

text \<open>A \<open>HexBlock\<close>; its grading is not needed by any property below and is left out.\<close>

record HexBlock =
  hexblock_vnames :: "string list"
  hexblock_cells :: "int list"
  hexblock_name :: string

text \<open>The \<open>index\<close> argument of \<open>HexBlock.face\<close> is a number or a keyword.\<close>

datatype selector = Num int | Kw string

definition kw_to_index :: "(string \<times> int) list" where
  "kw_to_index =
     [(''w'', 0), (''xm'', 0), (''-100'', 0),
      (''e'', 1), (''xp'', 1), (''100'', 1),
      (''s'', 2), (''ym'', 2), (''0-10'', 2),
      (''n'', 3), (''yp'', 3), (''010'', 3),
      (''b'', 4), (''zm'', 4), (''00-1'', 4),
      (''t'', 5), (''zp'', 5), (''001'', 5)]"

definition index_to_vertex :: "int list list" where
  "index_to_vertex =
     [[0, 4, 7, 3],
      [1, 2, 6, 5],
      [0, 1, 5, 4],
      [2, 3, 7, 6],
      [0, 3, 2, 1],
      [4, 5, 6, 7]]"

definition index_to_defaultsuffix :: "string list" where
  "index_to_defaultsuffix =
     [''f-{}-w'',
      ''f-{}-n'',
      ''f-{}-s'',
      ''f-{}-n'',
      ''f-{}-b'',
      ''f-{}-t'']"

text \<open>
  \<open>HexBlock.face(index, name=None)\<close>: a keyword is looked up in \<open>kw_to_index\<close>
  (\<open>KeyError\<close> when absent); the corner positions and the default name are read from the
  tables by the number (\<open>IndexError\<close> out of range).
\<close>

definition face :: "HexBlock \<Rightarrow> selector \<Rightarrow> string option \<Rightarrow> py_error + Face" where
  "face self index name =
     (case (case index of
              Kw s \<Rightarrow> (case map_of kw_to_index s of None \<Rightarrow> Inl KeyError | Some i \<Rightarrow> Inr i)
            | Num i \<Rightarrow> Inr i) of
        Inl e \<Rightarrow> Inl e
      | Inr index \<Rightarrow>
          (case getitem index_to_vertex index of
             Inl e \<Rightarrow> Inl e
           | Inr corners \<Rightarrow>
               (case getitems (hexblock_vnames self) corners of
                  Inl e \<Rightarrow> Inl e
                | Inr vnames \<Rightarrow>
                    (case name of
                       Some nm \<Rightarrow> Inr \<lparr>face_vnames = vnames, face_name = nm\<rparr>
                     | None \<Rightarrow>
                         (case getitem index_to_defaultsuffix index of
                            Inl e \<Rightarrow> Inl e
                          | Inr tmpl \<Rightarrow>
                              Inr \<lparr>face_vnames = vnames,
                                   face_name = str_format tmpl (hexblock_name self)\<rparr>)))))"

section \<open>Boundary\<close>

text \<open>
  A \<open>Boundary\<close> holds a reference to its list of faces: \<open>self.faces = faces\<close> stores the list
  object it is given, and \<open>add_face\<close> appends to that object in place.
\<close>

record Boundary =
  boundary_type :: string
  boundary_name :: string
  boundary_faces :: addr

text \<open>
  The default value \<open>[]\<close> of a parameter is one list object, created when the \<open>def\<close> is
  executed: one for \<open>Boundary.__init__\<close> and one for \<open>BlockMeshDict.add_boundary\<close>.
\<close>

definition Boundary_init_default_faces :: addr where
  "Boundary_init_default_faces = 0"

definition add_boundary_default_faces :: addr where
  "add_boundary_default_faces = 1"

text \<open>\<open>Boundary.__init__(type_, name, faces=[])\<close>; \<open>None\<close> stands for an omitted argument.\<close>

definition Boundary_init :: "string \<Rightarrow> string \<Rightarrow> addr option \<Rightarrow> Boundary" where
  "Boundary_init ty name faces =
     \<lparr>boundary_type = ty, boundary_name = name,
      boundary_faces = (case faces of None \<Rightarrow> Boundary_init_default_faces | Some l \<Rightarrow> l)\<rparr>"

section \<open>BlockMeshDict\<close>

text \<open>An entry of \<open>proj_faces\<close>: the dictionary \<open>{'face': face, 'proj_geom': name}\<close>.\<close>

record proj_face =
  pf_face :: Face
  pf_proj_geom :: string

text \<open>
  The state: the attributes of the \<open>BlockMeshDict\<close> instance, followed by the object store
  they refer into and the lines printed so far. \<open>vertices\<close> is never iterated and is a map;
  the dictionaries that are iterated keep their insertion order as association lists
  (\<open>AList.update\<close> replaces the value of a present key in place and appends a new key, as
  a Python \<open>dict\<close> does). \<open>valid_vertices\<close> does not exist before \<open>assign_vertexid\<close> has
  run. The registries of edges and geometries are left out: no property below reads them.
\<close>

record state =
  convert_to_meters :: real
  vertices :: "string \<rightharpoonup> addr"
  blocks :: "(string \<times> HexBlock) list"
  boundaries :: "(string \<times> Boundary) list"
  proj_faces :: "(string \<times> proj_face) list"
  valid_vertices :: "addr list option"
  vertex_store :: "addr \<Rightarrow> Vertex"
  list_store :: "addr \<Rightarrow> Face list"
  stdout :: "string list"

text \<open>\<open>BlockMeshDict.__init__\<close>, in a store where every list object is still empty.\<close>

definition BlockMeshDict_init :: "(addr \<Rightarrow> Vertex) \<Rightarrow> state" where
  "BlockMeshDict_init vs =
     \<lparr>convert_to_meters = 1, vertices = Map.empty, blocks = [], boundaries = [],
      proj_faces = [], valid_vertices = None, vertex_store = vs,
      list_store = (\<lambda>_. []), stdout = []\<rparr>"

definition metricsym_to_conversion :: "(string \<times> real) list" where
  "metricsym_to_conversion =
     [(''km'', 1000),
      (''m'', 1),
      (''cm'', 1 / 100),
      (''mm'', 1 / 1000),
      (''um'', 1 / 10 ^ 6),
      (''nm'', 1 / 10 ^ 9),
      (''A'', 1 / 10 ^ 10),
      (''Angstrom'', 1 / 10 ^ 10)]"

definition set_metric :: "state \<Rightarrow> string \<Rightarrow> py_error + state" where
  "set_metric self metric =
     (case map_of metricsym_to_conversion metric of
        None \<Rightarrow> Inl KeyError
      | Some c \<Rightarrow> Inr (self\<lparr>convert_to_meters := c\<rparr>))"

text \<open>
  \<open>add_vertex(vertex, name)\<close>: \<open>vertex\<close> is a reference to a \<open>Vertex\<close> object. The result is
  the new state and the returned reference \<open>self.vertices[name]\<close>, which exists on both
  branches.
\<close>

definition add_vertex :: "state \<Rightarrow> addr \<Rightarrow> string \<Rightarrow> state \<times> addr" where
  "add_vertex self vertex name =
     (let self' =
        (if name \<in> dom (vertices self)
         then self\<lparr>stdout := stdout self @ [''Vertex '' @ name @ '' has already been assigned'']\<rparr>
         else self\<lparr>vertices := (vertices self)(name \<mapsto> vertex)\<rparr>)
      in (self', the (vertices self' name)))"

text \<open>
  \<open>reduce_vertex(name1, *names)\<close>. The body of the loop reads \<open>w\<close> through the registry as
  it is at that iteration, merges its aliases into \<open>v\<close> in the store, and rebinds the name.
\<close>

definition reduce_vertex_body :: "addr \<Rightarrow> state \<Rightarrow> string \<Rightarrow> py_error + state" where
  "reduce_vertex_body v self n =
     (case vertices self n of
        None \<Rightarrow> Inl KeyError
      | Some w \<Rightarrow>
          Inr (self\<lparr>vertex_store := (vertex_store self)
                       (v := (vertex_store self v)
                          \<lparr>vertex_alias := vertex_alias (vertex_store self v) \<union>
                                            vertex_alias (vertex_store self w)\<rparr>),
                     vertices := (vertices self)(n \<mapsto> v)\<rparr>))"

fun reduce_vertex_loop :: "addr \<Rightarrow> state \<Rightarrow> string list \<Rightarrow> py_error + state" where
  "reduce_vertex_loop v self [] = Inr self"
| "reduce_vertex_loop v self (n # names) =
     (case reduce_vertex_body v self n of
        Inl e \<Rightarrow> Inl e
      | Inr self1 \<Rightarrow> reduce_vertex_loop v self1 names)"

definition reduce_vertex :: "state \<Rightarrow> string \<Rightarrow> string list \<Rightarrow> py_error + state" where
  "reduce_vertex self name1 names =
     (case vertices self name1 of
        None \<Rightarrow> Inl KeyError
      | Some v \<Rightarrow> reduce_vertex_loop v self names)"

definition add_hexblock :: "state \<Rightarrow> string list \<Rightarrow> int list \<Rightarrow> string \<Rightarrow> state \<times> HexBlock" where
  "add_hexblock self vnames cells name =
     (let b = \<lparr>hexblock_vnames = vnames, hexblock_cells = cells, hexblock_name = name\<rparr>
      in (self\<lparr>blocks := AList.update name b (blocks self)\<rparr>, b))"

text \<open>\<open>add_boundary(type_, name, faces=[])\<close> passes its own \<open>faces\<close> on to \<open>Boundary\<close>.\<close>

definition add_boundary :: "state \<Rightarrow> string \<Rightarrow> string \<Rightarrow> addr option \<Rightarrow> state \<times> Boundary" where
  "add_boundary self ty name faces =
     (let faces = (case faces of None \<Rightarrow> add_boundary_default_faces | Some l \<Rightarrow> l);
          b = Boundary_init ty name (Some faces)
      in (self\<lparr>boundaries := AList.update name b (boundaries self)\<rparr>, b))"

text \<open>\<open>Boundary.add_face(face)\<close>: \<open>self.faces.append(face)\<close>.\<close>

definition add_face :: "state \<Rightarrow> Boundary \<Rightarrow> Face \<Rightarrow> state" where
  "add_face st self f =
     st\<lparr>list_store := (list_store st)
           (boundary_faces self := list_store st (boundary_faces self) @ [f])\<rparr>"

definition add_proj_face :: "state \<Rightarrow> string \<Rightarrow> Face \<Rightarrow> string \<Rightarrow> state \<times> Face" where
  "add_proj_face self name f proj_geometry_name =
     (self\<lparr>proj_faces :=
              AList.update (face_name f) \<lparr>pf_face = f, pf_proj_geom = proj_geometry_name\<rparr>
                (proj_faces self)\<rparr>,
      f)"

section \<open>Index assignment\<close>

text \<open>
  \<open>sorted\<close> is Python's built-in: a stable sort that compares two elements with \<open>__lt__\<close>
  only. It is modelled as the stable insertion sort that takes the elements from left to
  right and puts each one in front of the first element of the sorted prefix that it is
  less than (on lists shorter than 64 elements CPython does the same insertion, looking
  for the position by bisection).
\<close>

fun insort_lt :: "('a \<Rightarrow> 'a \<Rightarrow> bool) \<Rightarrow> 'a \<Rightarrow> 'a list \<Rightarrow> 'a list" where
  "insort_lt lt x [] = [x]"
| "insort_lt lt x (y # ys) = (if lt x y then x # y # ys else y # insort_lt lt x ys)"

definition py_sorted :: "('a \<Rightarrow> 'a \<Rightarrow> bool) \<Rightarrow> 'a list \<Rightarrow> 'a list" where
  "py_sorted lt xs = foldl (\<lambda>acc x. insort_lt lt x acc) [] xs"

text \<open>
  The inner loop of \<open>assign_vertexid\<close> over the names of one block, on the pair
  \<open>(validvnames, self.valid_vertices)\<close>.
\<close>

fun gather_names ::
  "state \<Rightarrow> string list \<Rightarrow> string set \<times> addr list \<Rightarrow> py_error + string set \<times> addr list" where
  "gather_names self [] acc = Inr acc"
| "gather_names self (n # ns) (validvnames, vv) =
     (case vertices self n of
        None \<Rightarrow> Inl KeyError
      | Some v \<Rightarrow>
          (if vertex_name (vertex_store self v) \<notin> validvnames
           then gather_names self ns
                  (insert (vertex_name (vertex_store self v)) validvnames, vv @ [v])
           else gather_names self ns (validvnames, vv)))"

text \<open>The outer loop over \<open>self.blocks.values()\<close>.\<close>

fun gather_blocks ::
  "state \<Rightarrow> HexBlock list \<Rightarrow> string set \<times> addr list \<Rightarrow> py_error + string set \<times> addr list" where
  "gather_blocks self [] acc = Inr acc"
| "gather_blocks self (b # bs) acc =
     (case gather_names self (hexblock_vnames b) acc of
        Inl e \<Rightarrow> Inl e
      | Inr acc' \<Rightarrow> gather_blocks self bs acc')"

text \<open>\<open>for i, v in enumerate(self.valid_vertices): v.index = i\<close>, counting from \<open>i\<close>.\<close>

fun assign_index :: "(addr \<Rightarrow> Vertex) \<Rightarrow> nat \<Rightarrow> addr list \<Rightarrow> addr \<Rightarrow> Vertex" where
  "assign_index store i [] = store"
| "assign_index store i (v # vs) =
     assign_index (store(v := (store v)\<lparr>vertex_index := Some i\<rparr>)) (Suc i) vs"

definition assign_vertexid :: "state \<Rightarrow> py_error + state" where
  "assign_vertexid self =
     (case gather_blocks self (map snd (blocks self)) ({}, []) of
        Inl e \<Rightarrow> Inl e
      | Inr (validvnames, vv) \<Rightarrow>
          (let vv = py_sorted (\<lambda>a b. Vertex_lt (vertex_store self a) (vertex_store self b)) vv
           in Inr (self\<lparr>valid_vertices := Some vv,
                        vertex_store := assign_index (vertex_store self) 0 vv\<rparr>)))"

text \<open>
  \<open>format_vertices_section\<close>: one line per element of \<open>self.valid_vertices\<close>; reading the
  attribute before \<open>assign_vertexid\<close> has created it raises \<open>AttributeError\<close>.
\<close>

definition format_vertices_section ::
  "(real \<Rightarrow> string) \<Rightarrow> (string set \<Rightarrow> string list) \<Rightarrow> state \<Rightarrow> py_error + string" where
  "format_vertices_section fmt_g iter_set self =
     (case valid_vertices self of
        None \<Rightarrow> Inl AttributeError
      | Some vv \<Rightarrow>
          Inr (''vertices\<newline>'' @ ''(\<newline>'' @
               concat (map (\<lambda>v. ''    '' @ Vertex_format fmt_g iter_set (vertex_store self v) @
                                 ''\<newline>'') vv) @
               '');''))"

text \<open>
  The vertex records that the names of the blocks resolve to, in the order of the scan of
  \<open>assign_vertexid\<close>, and the same as a set.
\<close>

definition block_refs_list :: "state \<Rightarrow> addr list" where
  "block_refs_list self =
     List.map_filter (vertices self) (concat (map (hexblock_vnames \<circ> snd) (blocks self)))"

definition block_refs :: "state \<Rightarrow> addr set" where
  "block_refs self = set (block_refs_list self)"

text \<open>What a caller observes after \<open>assign_vertexid()\<close>: a vertex record, and the list.\<close>

definition vertex_after_assign :: "state \<Rightarrow> addr \<Rightarrow> py_error + Vertex" where
  "vertex_after_assign self a =
     (case assign_vertexid self of Inl e \<Rightarrow> Inl e | Inr self' \<Rightarrow> Inr (vertex_store self' a))"

definition valid_vertices_after_assign :: "state \<Rightarrow> py_error + addr list option" where
  "valid_vertices_after_assign self =
     (case assign_vertexid self of Inl e \<Rightarrow> Inl e | Inr self' \<Rightarrow> Inr (valid_vertices self'))"

section \<open>Example documents\<close>

text \<open>
  The unit cube: eight \<open>Vertex\<close> objects at the addresses 0 to 7, registered under their
  own names, and one block over them in the corner order of the mesh tool.
\<close>

definition unit_cube_store :: "addr \<Rightarrow> Vertex" where
  "unit_cube_store = (\<lambda>_. Vertex_init 0 0 0 [])
     (0 := Vertex_init 0 0 0 ''v0'', 1 := Vertex_init 1 0 0 ''v1'',
      2 := Vertex_init 1 1 0 ''v2'', 3 := Vertex_init 0 1 0 ''v3'',
      4 := Vertex_init 0 0 1 ''v4'', 5 := Vertex_init 1 0 1 ''v5'',
      6 := Vertex_init 1 1 1 ''v6'', 7 := Vertex_init 0 1 1 ''v7'')"

definition unit_block :: HexBlock where
  "unit_block =
     \<lparr>hexblock_vnames = [''v0'', ''v1'', ''v2'', ''v3'', ''v4'', ''v5'', ''v6'', ''v7''],
      hexblock_cells = [1, 1, 1], hexblock_name = ''b0''\<rparr>"

definition cube_of :: "(addr \<Rightarrow> Vertex) \<Rightarrow> state" where
  "cube_of store =
     fst (add_hexblock
            (foldl (\<lambda>s (v, n). fst (add_vertex s v n)) (BlockMeshDict_init store)
               [(0, ''v0''), (1, ''v1''), (2, ''v2''), (3, ''v3''),
                (4, ''v4''), (5, ''v5''), (6, ''v6''), (7, ''v7'')])
            (hexblock_vnames unit_block) (hexblock_cells unit_block) (hexblock_name unit_block))"

definition unit_cube :: state where
  "unit_cube = cube_of unit_cube_store"

text \<open>
  The same document, except that the \<open>Vertex\<close> object registered under \<open>'v1'\<close> was
  constructed with the name \<open>'v0'\<close>: \<open>add_vertex(Vertex(1, 0, 0, 'v0'), 'v1')\<close>.
\<close>

definition shared_name_store :: "addr \<Rightarrow> Vertex" where
  "shared_name_store = unit_cube_store(1 := Vertex_init 1 0 0 ''v0'')"

definition shared_name_cube :: state where
  "shared_name_cube = cube_of shared_name_store"

section \<open>Facts about the example documents\<close>

lemma cube_of_fields:
  "convert_to_meters (cube_of store) = 1"
  "blocks (cube_of store) = [(''b0'', unit_block)]"
  "vertices (cube_of store) =
     [''v0'' \<mapsto> 0, ''v1'' \<mapsto> 1, ''v2'' \<mapsto> 2, ''v3'' \<mapsto> 3,
      ''v4'' \<mapsto> 4, ''v5'' \<mapsto> 5, ''v6'' \<mapsto> 6, ''v7'' \<mapsto> 7]"
  "vertex_store (cube_of store) = store"
  "stdout (cube_of store) = []"
  by (simp_all add: cube_of_def add_hexblock_def add_vertex_def BlockMeshDict_init_def
        Let_def unit_block_def)

section \<open>Unit scale\<close>

text \<open>
  C9. \<open>set_metric('mm')\<close> sets \<open>convert_to_meters\<close> to 0.001; a symbol outside the table,
  such as \<open>'ly'\<close>, raises \<open>KeyError\<close>; the symbols that are accepted are exactly km, m, cm,
  mm, um, nm, A and Angstrom, with the multipliers 1000, 1, 0.01, 0.001, 1e-6, 1e-9, 1e-10
  and 1e-10.
\<close>

theorem set_metric_table:
  "set_metric self ''mm'' = Inr (self\<lparr>convert_to_meters := 1 / 1000\<rparr>)
   \<and> set_metric self ''ly'' = Inl KeyError
   \<and> (metric \<notin> {''km'', ''m'', ''cm'', ''mm'', ''um'', ''nm'', ''A'', ''Angstrom''} \<longrightarrow>
        set_metric self metric = Inl KeyError)
   \<and> (metric \<in> {''km'', ''m'', ''cm'', ''mm'', ''um'', ''nm'', ''A'', ''Angstrom''} \<longrightarrow>
        (\<exists>c. set_metric self metric = Inr (self\<lparr>convert_to_meters := c\<rparr>)))
   \<and> map (set_metric self) [''km'', ''m'', ''cm'', ''mm'', ''um'', ''nm'', ''A'', ''Angstrom''] =
      map (\<lambda>c. Inr (self\<lparr>convert_to_meters := c\<rparr>))
        [1000, 1, 1 / 100, 1 / 1000, 1 / 10 ^ 6, 1 / 10 ^ 9, 1 / 10 ^ 10, 1 / 10 ^ 10]"
  by (auto simp: set_metric_def metricsym_to_conversion_def)

theorem set_metric_table_witness:
  "set_metric unit_cube ''parsec'' = Inl KeyError
   \<and> (\<exists>c. set_metric unit_cube ''cm'' = Inr (unit_cube\<lparr>convert_to_meters := c\<rparr>))"
  using set_metric_table[of unit_cube "''parsec''"] set_metric_table[of unit_cube "''cm''"]
  by simp

section \<open>Registering a vertex twice\<close>

text \<open>
  C8. \<open>add_vertex\<close> with a name that is already a key of the registry does not raise: it
  prints the warning, leaves the registry and every vertex record as they were (the vertex
  passed in is not bound to anything), and returns the record already bound to the name.
\<close>

theorem add_vertex_existing_name:
  assumes "vertices self name = Some old"
  shows "add_vertex self vertex name =
           (self\<lparr>stdout := stdout self @ [''Vertex '' @ name @ '' has already been assigned'']\<rparr>,
            old)
     \<and> vertices (fst (add_vertex self vertex name)) = vertices self
     \<and> vertex_store (fst (add_vertex self vertex name)) = vertex_store self
     \<and> snd (add_vertex self vertex name) = old"
  using assms by (simp add: add_vertex_def dom_def)

theorem add_vertex_existing_name_witness:
  "vertices unit_cube ''v3'' = Some 3
   \<and> add_vertex unit_cube 8 ''v3'' =
       (unit_cube\<lparr>stdout := [''Vertex v3 has already been assigned'']\<rparr>, 3)"
proof -
  have h: "vertices unit_cube ''v3'' = Some 3"
    by (simp add: unit_cube_def cube_of_fields)
  from add_vertex_existing_name[OF h, of 8] h show ?thesis
    by (simp add: unit_cube_def cube_of_fields)
qed

section \<open>Projected faces\<close>

text \<open>
  C10. \<open>add_proj_face(name, face, proj_geometry_name)\<close> does not read \<open>name\<close>: the entry is
  stored under \<open>face.name\<close>. Hence a second call whose face has the same \<open>face.name\<close>
  replaces the entry of the first, whatever the two \<open>name\<close> arguments were: the document is
  the one the second call alone would have produced.
\<close>

theorem add_proj_face_key:
  "add_proj_face self name f g = add_proj_face self name' f g
   \<and> map_of (proj_faces (fst (add_proj_face self name f g))) (face_name f) =
       Some \<lparr>pf_face = f, pf_proj_geom = g\<rparr>
   \<and> (face_name f2 = face_name f \<longrightarrow>
        fst (add_proj_face (fst (add_proj_face self name f g)) name2 f2 g2) =
        fst (add_proj_face self name2 f2 g2))"
  by (simp add: add_proj_face_def update_Some_unfold)

theorem add_proj_face_key_witness:
  "fst (add_proj_face
          (fst (add_proj_face unit_cube ''a''
                  \<lparr>face_vnames = [''v0'', ''v4'', ''v7'', ''v3''], face_name = ''f-b0-w''\<rparr>
                  ''sphere''))
          ''b'' \<lparr>face_vnames = [''v4'', ''v5'', ''v6'', ''v7''], face_name = ''f-b0-w''\<rparr>
          ''plane'') =
   fst (add_proj_face unit_cube ''b''
          \<lparr>face_vnames = [''v4'', ''v5'', ''v6'', ''v7''], face_name = ''f-b0-w''\<rparr> ''plane'')"
  using add_proj_face_key[of unit_cube "''a''"
      "\<lparr>face_vnames = [''v0'', ''v4'', ''v7'', ''v3''], face_name = ''f-b0-w''\<rparr>" "''sphere''"
      "''a''" "\<lparr>face_vnames = [''v4'', ''v5'', ''v6'', ''v7''], face_name = ''f-b0-w''\<rparr>"
      "''b''" "''plane''"]
  by simp

section \<open>Faces of a block\<close>

lemma getitem_tables:
  "0 \<le> i \<Longrightarrow> i < 6 \<Longrightarrow> getitem index_to_vertex i = Inr (index_to_vertex ! nat i)"
  "0 \<le> i \<Longrightarrow> i < 6 \<Longrightarrow> getitem index_to_defaultsuffix i = Inr (index_to_defaultsuffix ! nat i)"
  by (simp_all add: getitem_def index_to_vertex_def index_to_defaultsuffix_def)

lemma getitems_map:
  "\<forall>j\<in>set js. 0 \<le> j \<and> j < int (length xs) \<Longrightarrow>
   getitems xs js = Inr (map (\<lambda>j. xs ! nat j) js)"
  by (induction js) (auto simp: getitem_def)

lemma corners_range:
  assumes "0 \<le> i" "i < 6" and j: "j \<in> set (index_to_vertex ! nat i)"
  shows "0 \<le> j \<and> j < 8"
proof -
  from assms(1,2) have "nat i \<in> {0, 1, 2, 3, 4, 5}" by auto
  with j show ?thesis
    by (auto simp: index_to_vertex_def)
qed

lemma face_default:
  assumes len: "length (hexblock_vnames b) = 8" and i: "0 \<le> i" "i < 6"
  shows "face b (Num i) None =
          Inr \<lparr>face_vnames = map (\<lambda>j. hexblock_vnames b ! nat j) (index_to_vertex ! nat i),
               face_name = str_format (index_to_defaultsuffix ! nat i) (hexblock_name b)\<rparr>"
proof -
  have "\<forall>j\<in>set (index_to_vertex ! nat i). 0 \<le> j \<and> j < int (length (hexblock_vnames b))"
    using corners_range[OF i] len by auto
  from getitems_map[OF this] show ?thesis
    by (simp add: face_def getitem_tables[OF i])
qed

text \<open>
  C5. For every block, every spelling of a face in \<open>kw_to_index\<close> gives the same result as
  the number it stands for, with or without a name argument; the spellings of the faces 0
  to 5 are the three listed for each; and on a block of eight names the face with the
  number \<open>i\<close> has the names at the four positions that \<open>index_to_vertex\<close> gives for \<open>i\<close>
  and the default name made from the \<open>i\<close>-th suffix template.
\<close>

theorem face_keyword_spellings:
  "(\<forall>(kw, i)\<in>set kw_to_index. face b (Kw kw) name = face b (Num i) name)
   \<and> map (\<lambda>i. map fst (filter (\<lambda>(kw, j). j = i) kw_to_index)) [0, 1, 2, 3, 4, 5] =
       [[''w'', ''xm'', ''-100''], [''e'', ''xp'', ''100''], [''s'', ''ym'', ''0-10''],
        [''n'', ''yp'', ''010''], [''b'', ''zm'', ''00-1''], [''t'', ''zp'', ''001'']]
   \<and> (length (hexblock_vnames b) = 8 \<longrightarrow> 0 \<le> i \<longrightarrow> i < 6 \<longrightarrow>
        face b (Num i) None =
          Inr \<lparr>face_vnames = map (\<lambda>j. hexblock_vnames b ! nat j) (index_to_vertex ! nat i),
               face_name = str_format (index_to_defaultsuffix ! nat i) (hexblock_name b)\<rparr>)"
proof (intro conjI impI)
  show "\<forall>(kw, i)\<in>set kw_to_index. face b (Kw kw) name = face b (Num i) name"
    by (simp add: kw_to_index_def face_def)
  show "map (\<lambda>i. map fst (filter (\<lambda>(kw, j). j = i) kw_to_index)) [0, 1, 2, 3, 4, 5] =
       [[''w'', ''xm'', ''-100''], [''e'', ''xp'', ''100''], [''s'', ''ym'', ''0-10''],
        [''n'', ''yp'', ''010''], [''b'', ''zm'', ''00-1''], [''t'', ''zp'', ''001'']]"
    by (simp add: kw_to_index_def)
next
  assume "length (hexblock_vnames b) = 8" "0 \<le> i" "i < 6"
  then show "face b (Num i) None =
          Inr \<lparr>face_vnames = map (\<lambda>j. hexblock_vnames b ! nat j) (index_to_vertex ! nat i),
               face_name = str_format (index_to_defaultsuffix ! nat i) (hexblock_name b)\<rparr>"
    by (rule face_default)
qed

theorem face_keyword_spellings_witness:
  "map (\<lambda>s. face unit_block s None) [Kw ''s'', Kw ''ym'', Kw ''0-10'', Num 2] =
     replicate 4 (Inr \<lparr>face_vnames = [''v0'', ''v1'', ''v5'', ''v4''], face_name = ''f-b0-s''\<rparr>)"
proof -
  have mem: "(''s'', 2) \<in> set kw_to_index" "(''ym'', 2) \<in> set kw_to_index"
    "(''0-10'', 2) \<in> set kw_to_index"
    by (simp_all add: kw_to_index_def)
  have len: "length (hexblock_vnames unit_block) = 8" by (simp add: unit_block_def)
  note t = face_keyword_spellings[of unit_block None 2]
  from t have a: "\<forall>(kw, i)\<in>set kw_to_index. face unit_block (Kw kw) None = face unit_block (Num i) None"
    by blast
  from t len have b: "face unit_block (Num 2) None =
      Inr \<lparr>face_vnames = map (\<lambda>j. hexblock_vnames unit_block ! nat j) (index_to_vertex ! nat 2),
           face_name = str_format (index_to_defaultsuffix ! nat 2) (hexblock_name unit_block)\<rparr>"
    by simp
  have c: "face unit_block (Num 2) None =
      Inr \<lparr>face_vnames = [''v0'', ''v1'', ''v5'', ''v4''], face_name = ''f-b0-s''\<rparr>"
    unfolding b by (simp add: unit_block_def index_to_vertex_def index_to_defaultsuffix_def)
  from a mem c show ?thesis by (auto simp: numeral_eq_Suc)
qed

text \<open>
  C6. Two different face numbers have the same default name on every block of eight names:
  the templates at the positions 1 and 3 of \<open>index_to_defaultsuffix\<close> are both \<open>'f-{}-n'\<close>.
\<close>

theorem default_suffix_duplicate:
  "\<exists>i j. i \<noteq> j \<and> 0 \<le> i \<and> i < 6 \<and> 0 \<le> j \<and> j < 6 \<and>
     (\<forall>b. length (hexblock_vnames b) = 8 \<longrightarrow>
        (\<exists>f g. face b (Num i) None = Inr f \<and> face b (Num j) None = Inr g \<and>
               face_name f = face_name g))"
proof -
  have "\<exists>f g. face b (Num 1) None = Inr f \<and> face b (Num 3) None = Inr g \<and>
               face_name f = face_name g"
    if "length (hexblock_vnames b) = 8" for b
    using face_default[OF that, of 1] face_default[OF that, of 3]
    by (simp add: index_to_defaultsuffix_def)
  then show ?thesis
    by (intro exI[of _ "1::int"] exI[of _ "3::int"]) simp
qed

theorem default_suffix_duplicate_witness:
  "\<exists>i j. i \<noteq> j \<and> 0 \<le> i \<and> i < 6 \<and> 0 \<le> j \<and> j < 6 \<and>
     (\<exists>f g. face unit_block (Num i) None = Inr f \<and> face unit_block (Num j) None = Inr g \<and>
            face_name f = face_name g)"
proof -
  have "length (hexblock_vnames unit_block) = 8" by (simp add: unit_block_def)
  with default_suffix_duplicate show ?thesis by blast
qed

section \<open>Boundaries created without a face list\<close>

text \<open>
  C7 says that two boundaries created without a face list never share the storage of
  their faces. The code does not do that: both calls of \<open>add_boundary\<close> pass on the one
  default list of \<open>add_boundary\<close>, so the two \<open>Boundary\<close> objects hold the same list, and a
  face added to the first is in the list of the second.
\<close>

theorem boundaries_share_default_faces:
  "boundary_faces (snd (add_boundary s0 ty1 n1 None)) =
     boundary_faces (snd (add_boundary (fst (add_boundary s0 ty1 n1 None)) ty2 n2 None))
   \<and> list_store
       (add_face (fst (add_boundary (fst (add_boundary s0 ty1 n1 None)) ty2 n2 None))
          (snd (add_boundary s0 ty1 n1 None)) f)
       (boundary_faces (snd (add_boundary (fst (add_boundary s0 ty1 n1 None)) ty2 n2 None))) =
     list_store s0 add_boundary_default_faces @ [f]"
  by (simp add: add_boundary_def Boundary_init_def add_face_def Let_def)

section \<open>Merging vertices\<close>

lemma body_vertices:
  "reduce_vertex_body v self n = Inr self1 \<Longrightarrow> vertices self1 = (vertices self)(n \<mapsto> v)"
  by (auto simp: reduce_vertex_body_def split: option.splits)

lemma body_store:
  "reduce_vertex_body v self n = Inr self1 \<Longrightarrow>
   \<exists>w. vertices self n = Some w \<and>
     vertex_store self1 = (vertex_store self)
       (v := (vertex_store self v)
          \<lparr>vertex_alias := vertex_alias (vertex_store self v) \<union> vertex_alias (vertex_store self w)\<rparr>)"
  by (auto simp: reduce_vertex_body_def split: option.splits)

lemma body_total:
  "n \<in> dom (vertices self) \<Longrightarrow> \<exists>self1. reduce_vertex_body v self n = Inr self1"
  by (auto simp: reduce_vertex_body_def split: option.splits)

lemma body_idem:
  "vertices self n = Some v \<Longrightarrow> reduce_vertex_body v self n = Inr self"
  by (simp add: reduce_vertex_body_def map_upd_triv)

lemma loop_Cons:
  "reduce_vertex_loop v self (n # ns) = Inr self' \<Longrightarrow>
   \<exists>self1. reduce_vertex_body v self n = Inr self1 \<and> reduce_vertex_loop v self1 ns = Inr self'"
  by (auto split: sum.splits)

lemma loop_vertices:
  "reduce_vertex_loop v self ns = Inr self' \<Longrightarrow>
   vertices self' = (\<lambda>n. if n \<in> set ns then Some v else vertices self n)"
proof (induction ns arbitrary: self)
  case Nil
  then show ?case by simp
next
  case (Cons n ns)
  from loop_Cons[OF Cons.prems] obtain self1 where
    b: "reduce_vertex_body v self n = Inr self1" and l: "reduce_vertex_loop v self1 ns = Inr self'"
    by blast
  show ?case using Cons.IH[OF l] body_vertices[OF b] by auto
qed

lemma loop_store_other:
  "reduce_vertex_loop v self ns = Inr self' \<Longrightarrow> a \<noteq> v \<Longrightarrow>
   vertex_store self' a = vertex_store self a"
proof (induction ns arbitrary: self)
  case Nil
  then show ?case by simp
next
  case (Cons n ns)
  from loop_Cons[OF Cons.prems(1)] obtain self1 where
    b: "reduce_vertex_body v self n = Inr self1" and l: "reduce_vertex_loop v self1 ns = Inr self'"
    by blast
  show ?case using Cons.IH[OF l Cons.prems(2)] body_store[OF b] Cons.prems(2) by auto
qed

lemma loop_store_fields:
  "reduce_vertex_loop v self ns = Inr self' \<Longrightarrow>
   vertex_store self' v = (vertex_store self v)\<lparr>vertex_alias := vertex_alias (vertex_store self' v)\<rparr>"
proof (induction ns arbitrary: self)
  case Nil
  then show ?case by simp
next
  case (Cons n ns)
  from loop_Cons[OF Cons.prems(1)] obtain self1 where
    b: "reduce_vertex_body v self n = Inr self1" and l: "reduce_vertex_loop v self1 ns = Inr self'"
    by blast
  show ?case using Cons.IH[OF l] body_store[OF b] by auto
qed

lemma loop_alias:
  "reduce_vertex_loop v self ns = Inr self' \<Longrightarrow>
   vertex_alias (vertex_store self' v) =
     vertex_alias (vertex_store self v) \<union>
     (\<Union>n\<in>set ns. vertex_alias (vertex_store self (the (vertices self n))))"
proof (induction ns arbitrary: self)
  case Nil
  then show ?case by simp
next
  case (Cons n ns)
  from loop_Cons[OF Cons.prems(1)] obtain self1 where
    b: "reduce_vertex_body v self n = Inr self1" and l: "reduce_vertex_loop v self1 ns = Inr self'"
    by blast
  from body_store[OF b] obtain w where w: "vertices self n = Some w"
    and s1: "vertex_store self1 = (vertex_store self)
       (v := (vertex_store self v)
          \<lparr>vertex_alias := vertex_alias (vertex_store self v) \<union> vertex_alias (vertex_store self w)\<rparr>)"
    by blast
  have v1: "vertices self1 = (vertices self)(n \<mapsto> v)" by (rule body_vertices[OF b])
  have sub: "(\<Union>m\<in>set ns. vertex_alias (vertex_store self1 (the (vertices self1 m)))) \<subseteq>
      vertex_alias (vertex_store self v) \<union> vertex_alias (vertex_store self w) \<union>
      (\<Union>m\<in>set ns. vertex_alias (vertex_store self (the (vertices self m))))"
    by (auto simp: s1 v1 split: if_splits)
  have sup: "(\<Union>m\<in>set ns. vertex_alias (vertex_store self (the (vertices self m)))) \<subseteq>
      vertex_alias (vertex_store self v) \<union> vertex_alias (vertex_store self w) \<union>
      (\<Union>m\<in>set ns. vertex_alias (vertex_store self1 (the (vertices self1 m))))"
  proof
    fix x assume "x \<in> (\<Union>m\<in>set ns. vertex_alias (vertex_store self (the (vertices self m))))"
    then obtain m where m: "m \<in> set ns" "x \<in> vertex_alias (vertex_store self (the (vertices self m)))"
      by blast
    show "x \<in> vertex_alias (vertex_store self v) \<union> vertex_alias (vertex_store self w) \<union>
      (\<Union>m\<in>set ns. vertex_alias (vertex_store self1 (the (vertices self1 m))))"
    proof (cases "m = n")
      case True
      with m w show ?thesis by simp
    next
      case False
      then have "vertex_alias (vertex_store self (the (vertices self m))) \<subseteq>
                 vertex_alias (vertex_store self1 (the (vertices self1 m)))"
        by (auto simp: s1 v1)
      with m show ?thesis by blast
    qed
  qed
  have "vertex_alias (vertex_store self' v) =
     vertex_alias (vertex_store self v) \<union> vertex_alias (vertex_store self w) \<union>
     (\<Union>m\<in>set ns. vertex_alias (vertex_store self1 (the (vertices self1 m))))"
    using Cons.IH[OF l] by (simp add: s1)
  with sub sup show ?case using w by auto
qed

lemma loop_total:
  "set ns \<subseteq> dom (vertices self) \<Longrightarrow> \<exists>self'. reduce_vertex_loop v self ns = Inr self'"
proof (induction ns arbitrary: self)
  case Nil
  then show ?case by simp
next
  case (Cons n ns)
  then have "n \<in> dom (vertices self)" by simp
  from body_total[OF this] obtain self1 where b: "reduce_vertex_body v self n = Inr self1"
    by blast
  have "set ns \<subseteq> dom (vertices self1)"
    using Cons.prems body_vertices[OF b] by auto
  from Cons.IH[OF this] show ?case using b by simp
qed

lemma loop_idem:
  "\<forall>n\<in>set ns. vertices self n = Some v \<Longrightarrow> reduce_vertex_loop v self ns = Inr self"
  by (induction ns) (simp_all add: body_idem)


lemma reduce_vertex_Inr:
  "reduce_vertex self name1 names = Inr self' \<Longrightarrow>
   \<exists>v. vertices self name1 = Some v \<and> reduce_vertex_loop v self names = Inr self'"
  by (auto simp: reduce_vertex_def split: option.splits)

text \<open>
  C3. On a registry that has all of \<open>name1, n2, ..., nk\<close>, \<open>reduce_vertex\<close> returns, and
  afterwards every one of these names is bound to the record \<open>v\<close> that \<open>name1\<close> was bound
  to; the alias set of \<open>v\<close> is the union of the alias sets that the records of these
  names had before the call; the coordinates of \<open>v\<close> are the ones it had before.
\<close>

theorem reduce_vertex_merges:
  assumes "set (name1 # names) \<subseteq> dom (vertices self)"
  shows "\<exists>self' v. reduce_vertex self name1 names = Inr self' \<and> vertices self name1 = Some v
     \<and> (\<forall>n\<in>set (name1 # names). vertices self' n = Some v)
     \<and> vertex_alias (vertex_store self' v) =
         (\<Union>n\<in>set (name1 # names). vertex_alias (vertex_store self (the (vertices self n))))
     \<and> vertex_x (vertex_store self' v) = vertex_x (vertex_store self v)
     \<and> vertex_y (vertex_store self' v) = vertex_y (vertex_store self v)
     \<and> vertex_z (vertex_store self' v) = vertex_z (vertex_store self v)"
proof -
  from assms obtain v where v: "vertices self name1 = Some v" by auto
  from assms have "set names \<subseteq> dom (vertices self)" by simp
  from loop_total[OF this] obtain self' where l: "reduce_vertex_loop v self names = Inr self'"
    by blast
  have r: "reduce_vertex self name1 names = Inr self'"
    using v l by (simp add: reduce_vertex_def)
  have reg: "\<forall>n\<in>set (name1 # names). vertices self' n = Some v"
    using loop_vertices[OF l] v by simp
  have al: "vertex_alias (vertex_store self' v) =
         (\<Union>n\<in>set (name1 # names). vertex_alias (vertex_store self (the (vertices self n))))"
    using loop_alias[OF l] v by simp
  have "vertex_store self' v =
        (vertex_store self v)\<lparr>vertex_alias := vertex_alias (vertex_store self' v)\<rparr>"
    by (rule loop_store_fields[OF l])
  then have co: "vertex_x (vertex_store self' v) = vertex_x (vertex_store self v)"
    "vertex_y (vertex_store self' v) = vertex_y (vertex_store self v)"
    "vertex_z (vertex_store self' v) = vertex_z (vertex_store self v)"
    by (metis Vertex.select_convs Vertex.surjective Vertex.update_convs)+
  from r v reg al co show ?thesis by blast
qed

theorem reduce_vertex_merges_witness:
  "\<exists>self'. reduce_vertex unit_cube ''v0'' [''v4'', ''v3''] = Inr self'
     \<and> vertices self' ''v0'' = Some 0 \<and> vertices self' ''v4'' = Some 0
     \<and> vertices self' ''v3'' = Some 0
     \<and> vertex_alias (vertex_store self' 0) = {''v0'', ''v4'', ''v3''}
     \<and> vertex_x (vertex_store self' 0) = 0 \<and> vertex_y (vertex_store self' 0) = 0
     \<and> vertex_z (vertex_store self' 0) = 0"
proof -
  have h: "set (''v0'' # [''v4'', ''v3'']) \<subseteq> dom (vertices unit_cube)"
    by (simp add: unit_cube_def cube_of_fields)
  from reduce_vertex_merges[OF h] show ?thesis
    by (simp add: unit_cube_def cube_of_fields unit_cube_store_def Vertex_init_def) blast
qed

text \<open>
  C4. Where \<open>reduce_vertex(name1, n2, ..., nk)\<close> has returned, the same call on the
  resulting state returns that state unchanged: registry, vertex records and all.
\<close>

theorem reduce_vertex_idempotent:
  assumes "reduce_vertex self name1 names = Inr self'"
  shows "reduce_vertex self' name1 names = Inr self'"
proof -
  from reduce_vertex_Inr[OF assms] obtain v where v: "vertices self name1 = Some v"
    and l: "reduce_vertex_loop v self names = Inr self'" by blast
  have reg: "vertices self' = (\<lambda>n. if n \<in> set names then Some v else vertices self n)"
    by (rule loop_vertices[OF l])
  have "vertices self' name1 = Some v" using reg v by simp
  moreover have "reduce_vertex_loop v self' names = Inr self'"
    by (rule loop_idem) (simp add: reg)
  ultimately show ?thesis by (simp add: reduce_vertex_def)
qed

theorem reduce_vertex_idempotent_witness:
  "\<exists>self'. reduce_vertex unit_cube ''v0'' [''v4'', ''v3''] = Inr self'
     \<and> reduce_vertex self' ''v0'' [''v4'', ''v3''] = Inr self'"
proof -
  have "set [''v4'', ''v3''] \<subseteq> dom (vertices unit_cube)"
    by (simp add: unit_cube_def cube_of_fields)
  from loop_total[OF this] obtain self' where
    "reduce_vertex_loop 0 unit_cube [''v4'', ''v3''] = Inr self'" by blast
  then have r: "reduce_vertex unit_cube ''v0'' [''v4'', ''v3''] = Inr self'"
    by (simp add: reduce_vertex_def unit_cube_def cube_of_fields)
  from r reduce_vertex_idempotent[OF r] show ?thesis by blast
qed

section \<open>Properties of the index assignment\<close>

lemma assign_index_notin:
  "a \<notin> set vs \<Longrightarrow> assign_index store i vs a = store a"
  by (induction vs arbitrary: store i) auto

lemma assign_index_nth:
  "distinct vs \<Longrightarrow> k < length vs \<Longrightarrow>
   assign_index store i vs (vs ! k) = (store (vs ! k))\<lparr>vertex_index := Some (i + k)\<rparr>"
proof (induction vs arbitrary: store i k)
  case Nil
  then show ?case by simp
next
  case (Cons v vs)
  show ?case
  proof (cases k)
    case 0
    with Cons.prems show ?thesis by (simp add: assign_index_notin)
  next
    case (Suc j)
    let ?store = "store(v := (store v)\<lparr>vertex_index := Some i\<rparr>)"
    from Suc Cons.prems have ne: "vs ! j \<noteq> v" and d: "distinct vs" and j: "j < length vs"
      by auto
    have "assign_index ?store (Suc i) vs (vs ! j) = (?store (vs ! j))\<lparr>vertex_index := Some (Suc i + j)\<rparr>"
      by (rule Cons.IH[OF d j])
    with ne Suc show ?thesis by simp
  qed
qed

lemma set_insort_lt: "set (insort_lt lt x ys) = insert x (set ys)"
  by (induction ys) auto

lemma distinct_insort_lt: "distinct (insort_lt lt x ys) \<longleftrightarrow> x \<notin> set ys \<and> distinct ys"
  by (induction ys) (auto simp: set_insort_lt)

lemma foldl_insort_set:
  "set (foldl (\<lambda>acc x. insort_lt lt x acc) acc xs) = set acc \<union> set xs"
  by (induction xs arbitrary: acc) (auto simp: set_insort_lt)

lemma foldl_insort_distinct:
  "distinct (foldl (\<lambda>acc x. insort_lt lt x acc) acc xs) \<longleftrightarrow> distinct (acc @ xs)"
  by (induction xs arbitrary: acc) (auto simp: set_insort_lt distinct_insort_lt)

lemma set_py_sorted: "set (py_sorted lt xs) = set xs"
  by (simp add: py_sorted_def foldl_insort_set)

lemma distinct_py_sorted: "distinct (py_sorted lt xs) = distinct xs"
  by (simp add: py_sorted_def foldl_insort_distinct)

lemma gather_names_inv:
  assumes "gather_names self ns (seen, vv) = Inr (seen', vv')"
    and "seen = (\<lambda>a. vertex_name (vertex_store self a)) ` set vv"
    and "distinct (map (\<lambda>a. vertex_name (vertex_store self a)) vv)"
  shows "seen' = (\<lambda>a. vertex_name (vertex_store self a)) ` set vv'
     \<and> distinct (map (\<lambda>a. vertex_name (vertex_store self a)) vv')
     \<and> set vv \<subseteq> set vv'
     \<and> set vv' \<subseteq> set vv \<union> {a. \<exists>n\<in>set ns. vertices self n = Some a}
     \<and> (\<forall>n\<in>set ns. \<exists>a. vertices self n = Some a \<and> vertex_name (vertex_store self a) \<in> seen')"
  using assms
proof (induction ns arbitrary: seen vv)
  case Nil
  then show ?case by auto
next
  case (Cons n ns)
  from Cons.prems(1) obtain v where v: "vertices self n = Some v"
    by (auto split: option.splits)
  let ?nm = "\<lambda>a. vertex_name (vertex_store self a)"
  show ?case
  proof (cases "?nm v \<in> seen")
    case True
    with Cons.prems(1) v have g: "gather_names self ns (seen, vv) = Inr (seen', vv')" by simp
    from Cons.IH[OF g Cons.prems(2,3)] have ih: "seen' = ?nm ` set vv'"
      "distinct (map ?nm vv')" "set vv \<subseteq> set vv'"
      "set vv' \<subseteq> set vv \<union> {a. \<exists>n\<in>set ns. vertices self n = Some a}"
      "\<forall>n\<in>set ns. \<exists>a. vertices self n = Some a \<and> ?nm a \<in> seen'" by blast+
    have "?nm v \<in> seen'" using True Cons.prems(2) ih(1,3) by blast
    with ih v show ?thesis by auto
  next
    case False
    with Cons.prems(1) v have g: "gather_names self ns (insert (?nm v) seen, vv @ [v]) = Inr (seen', vv')"
      by simp
    have p2: "insert (?nm v) seen = ?nm ` set (vv @ [v])" using Cons.prems(2) by auto
    have p3: "distinct (map ?nm (vv @ [v]))" using Cons.prems(2,3) False by auto
    from Cons.IH[OF g p2 p3] have ih: "seen' = ?nm ` set vv'"
      "distinct (map ?nm vv')" "set (vv @ [v]) \<subseteq> set vv'"
      "set vv' \<subseteq> set (vv @ [v]) \<union> {a. \<exists>n\<in>set ns. vertices self n = Some a}"
      "\<forall>n\<in>set ns. \<exists>a. vertices self n = Some a \<and> ?nm a \<in> seen'" by blast+
    have "?nm v \<in> seen'" using ih(1,3) by auto
    with ih v show ?thesis by auto
  qed
qed

lemma gather_names_total:
  "set ns \<subseteq> dom (vertices self) \<Longrightarrow> \<exists>acc'. gather_names self ns acc = Inr acc'"
proof (induction ns arbitrary: acc)
  case Nil
  then show ?case by simp
next
  case (Cons n ns)
  obtain seen vv where acc: "acc = (seen, vv)" by (cases acc)
  from Cons.prems obtain v where v: "vertices self n = Some v" by auto
  from Cons.prems have "set ns \<subseteq> dom (vertices self)" by simp
  from Cons.IH[OF this] show ?case unfolding acc using v by simp
qed

lemma gather_blocks_inv:
  assumes "gather_blocks self bs (seen, vv) = Inr (seen', vv')"
    and "seen = (\<lambda>a. vertex_name (vertex_store self a)) ` set vv"
    and "distinct (map (\<lambda>a. vertex_name (vertex_store self a)) vv)"
  shows "seen' = (\<lambda>a. vertex_name (vertex_store self a)) ` set vv'
     \<and> distinct (map (\<lambda>a. vertex_name (vertex_store self a)) vv')
     \<and> set vv \<subseteq> set vv'
     \<and> set vv' \<subseteq> set vv \<union> {a. \<exists>b\<in>set bs. \<exists>n\<in>set (hexblock_vnames b). vertices self n = Some a}
     \<and> (\<forall>b\<in>set bs. \<forall>n\<in>set (hexblock_vnames b).
           \<exists>a. vertices self n = Some a \<and> vertex_name (vertex_store self a) \<in> seen')"
  using assms
proof (induction bs arbitrary: seen vv)
  case Nil
  then show ?case by auto
next
  case (Cons b bs)
  let ?nm = "\<lambda>a. vertex_name (vertex_store self a)"
  from Cons.prems(1) obtain seen1 vv1 where
    g1: "gather_names self (hexblock_vnames b) (seen, vv) = Inr (seen1, vv1)" and
    g2: "gather_blocks self bs (seen1, vv1) = Inr (seen', vv')"
    by (auto split: sum.splits)
  from gather_names_inv[OF g1 Cons.prems(2,3)] have n: "seen1 = ?nm ` set vv1"
      "distinct (map ?nm vv1)" "set vv \<subseteq> set vv1"
      "set vv1 \<subseteq> set vv \<union> {a. \<exists>n\<in>set (hexblock_vnames b). vertices self n = Some a}"
      "\<forall>n\<in>set (hexblock_vnames b). \<exists>a. vertices self n = Some a \<and> ?nm a \<in> seen1" by blast+
  from Cons.IH[OF g2 n(1,2)] have ih: "seen' = ?nm ` set vv'"
      "distinct (map ?nm vv')" "set vv1 \<subseteq> set vv'"
      "set vv' \<subseteq> set vv1 \<union> {a. \<exists>b\<in>set bs. \<exists>n\<in>set (hexblock_vnames b). vertices self n = Some a}"
      "\<forall>b\<in>set bs. \<forall>n\<in>set (hexblock_vnames b). \<exists>a. vertices self n = Some a \<and> ?nm a \<in> seen'"
    by blast+
  have sub: "seen1 \<subseteq> seen'" using n(1) ih(1,3) by blast
  have a: "set vv \<subseteq> set vv'" using n(3) ih(3) by blast
  have b: "set vv' \<subseteq> set vv \<union> {a. \<exists>b\<in>set (b # bs). \<exists>n\<in>set (hexblock_vnames b). vertices self n = Some a}"
    using n(4) ih(4) by auto
  have c: "\<forall>b\<in>set (b # bs). \<forall>n\<in>set (hexblock_vnames b). \<exists>a. vertices self n = Some a \<and> ?nm a \<in> seen'"
    using n(5) ih(5) sub by (simp, blast)
  from ih(1,2) a b c show ?case by blast
qed

lemma gather_blocks_total:
  "\<forall>b\<in>set bs. set (hexblock_vnames b) \<subseteq> dom (vertices self) \<Longrightarrow>
   \<exists>acc'. gather_blocks self bs acc = Inr acc'"
proof (induction bs arbitrary: acc)
  case Nil
  then show ?case by simp
next
  case (Cons b bs)
  then have "set (hexblock_vnames b) \<subseteq> dom (vertices self)" by simp
  from gather_names_total[OF this] obtain acc1 where
    "gather_names self (hexblock_vnames b) acc = Inr acc1" by blast
  moreover from Cons have "\<exists>acc'. gather_blocks self bs acc1 = Inr acc'" by simp
  ultimately show ?case by simp
qed

lemma block_refs_iff:
  "a \<in> block_refs self \<longleftrightarrow>
   (\<exists>b\<in>set (map snd (blocks self)). \<exists>n\<in>set (hexblock_vnames b). vertices self n = Some a)"
  by (auto simp: block_refs_def block_refs_list_def List.map_filter_def) force+


lemma assign_vertexid_result:
  assumes "assign_vertexid self = Inr self'"
  shows "\<exists>vv. valid_vertices self' = Some vv
     \<and> vertex_store self' = assign_index (vertex_store self) 0 vv
     \<and> distinct (map (\<lambda>a. vertex_name (vertex_store self a)) vv)
     \<and> set vv \<subseteq> block_refs self
     \<and> (\<forall>a\<in>block_refs self. \<exists>b\<in>set vv.
           vertex_name (vertex_store self b) = vertex_name (vertex_store self a))"
proof -
  let ?nm = "\<lambda>a. vertex_name (vertex_store self a)"
  let ?lt = "\<lambda>a b. Vertex_lt (vertex_store self a) (vertex_store self b)"
  from assms obtain seen vv0 where
    g: "gather_blocks self (map snd (blocks self)) ({}, []) = Inr (seen, vv0)" and
    s: "self' = self\<lparr>valid_vertices := Some (py_sorted ?lt vv0),
                      vertex_store := assign_index (vertex_store self) 0 (py_sorted ?lt vv0)\<rparr>"
    by (auto simp: assign_vertexid_def Let_def split: sum.splits prod.splits)
  have inv: "seen = ?nm ` set vv0" "distinct (map ?nm vv0)"
    "set vv0 \<subseteq> {a. \<exists>b\<in>set (map snd (blocks self)). \<exists>n\<in>set (hexblock_vnames b). vertices self n = Some a}"
    "\<forall>b\<in>set (map snd (blocks self)). \<forall>n\<in>set (hexblock_vnames b).
        \<exists>a. vertices self n = Some a \<and> ?nm a \<in> seen"
    using gather_blocks_inv[OF g] by auto
  let ?vv = "py_sorted ?lt vv0"
  have d0: "distinct vv0" using inv(2) by (rule distinct_map[THEN iffD1, THEN conjunct1])
  have inj0: "inj_on ?nm (set vv0)" using inv(2) by (simp add: distinct_map)
  have "distinct ?vv" using d0 by (simp add: distinct_py_sorted)
  moreover have "inj_on ?nm (set ?vv)" using inj0 by (simp add: set_py_sorted)
  ultimately have d: "distinct (map ?nm ?vv)" by (simp add: distinct_map)
  have sub: "set ?vv \<subseteq> block_refs self"
    using inv(3) by (auto simp: set_py_sorted block_refs_iff)
  have cover: "\<forall>a\<in>block_refs self. \<exists>b\<in>set ?vv. ?nm b = ?nm a"
  proof
    fix a assume "a \<in> block_refs self"
    then obtain b n where "b \<in> set (map snd (blocks self))" "n \<in> set (hexblock_vnames b)"
      "vertices self n = Some a" unfolding block_refs_iff by blast
    with inv(4) have "?nm a \<in> seen" by fastforce
    with inv(1) show "\<exists>b\<in>set ?vv. ?nm b = ?nm a" by (auto simp: set_py_sorted)
  qed
  from s d sub cover show ?thesis by simp
qed

lemma assign_vertexid_total:
  assumes "\<forall>b\<in>set (map snd (blocks self)). set (hexblock_vnames b) \<subseteq> dom (vertices self)"
  shows "\<exists>self'. assign_vertexid self = Inr self'"
proof -
  from gather_blocks_total[OF assms] obtain acc where
    "gather_blocks self (map snd (blocks self)) ({}, []) = Inr acc" by blast
  then show ?thesis by (cases acc) (simp add: assign_vertexid_def Let_def)
qed

lemma format_vertices_section_frame:
  assumes "valid_vertices self = Some vv" and "a \<notin> set vv"
  shows "format_vertices_section fmt_g iter_set (self\<lparr>vertex_store := (vertex_store self)(a := v)\<rparr>) =
         format_vertices_section fmt_g iter_set self"
proof -
  have "concat (map (\<lambda>b. ''    '' @ Vertex_format fmt_g iter_set (((vertex_store self)(a := v)) b) @
                        ''\<newline>'') vv) =
        concat (map (\<lambda>b. ''    '' @ Vertex_format fmt_g iter_set (vertex_store self b) @
                        ''\<newline>'') vv)"
    by (rule arg_cong[where f = concat], rule map_cong) (use assms(2) in auto)
  then show ?thesis using assms(1) by (simp add: format_vertices_section_def)
qed

text \<open>The index assignment on the two example documents.\<close>

lemma block_refs_cube_of: "block_refs (cube_of store) = {0, 1, 2, 3, 4, 5, 6, 7}"
  by (simp add: block_refs_def block_refs_list_def List.map_filter_def cube_of_fields
        unit_block_def)

lemma names_cube_of:
  "\<forall>b\<in>set (map snd (blocks (cube_of store))). set (hexblock_vnames b) \<subseteq> dom (vertices (cube_of store))"
  by (simp add: cube_of_fields unit_block_def)

lemma gather_unit_cube:
  "gather_blocks unit_cube (map snd (blocks unit_cube)) ({}, []) =
     Inr ({''v7'', ''v6'', ''v5'', ''v4'', ''v3'', ''v2'', ''v1'', ''v0''}, [0, 1, 2, 3, 4, 5, 6, 7])"
  by (simp add: unit_cube_def cube_of_fields unit_block_def unit_cube_store_def Vertex_init_def)

lemma sorted_unit_cube:
  "py_sorted (\<lambda>a b. Vertex_lt (unit_cube_store a) (unit_cube_store b)) [0, 1, 2, 3, 4, 5, 6, 7]
    = [0, 1, 2, 3, 4, 5, 7, 6]"
  by (simp add: py_sorted_def unit_cube_store_def Vertex_init_def Vertex_lt_def)

lemma assign_unit_cube:
  "assign_vertexid unit_cube =
     Inr (unit_cube\<lparr>valid_vertices := Some [0, 1, 2, 3, 4, 5, 7, 6],
                    vertex_store := assign_index unit_cube_store 0 [0, 1, 2, 3, 4, 5, 7, 6]\<rparr>)"
proof -
  have st: "vertex_store unit_cube = unit_cube_store"
    by (simp add: unit_cube_def cube_of_fields)
  show ?thesis
    unfolding assign_vertexid_def gather_unit_cube
    by (simp only: sum.case prod.case Let_def st sorted_unit_cube)
qed

lemma gather_shared_name_cube:
  "gather_blocks shared_name_cube (map snd (blocks shared_name_cube)) ({}, []) =
     Inr ({''v7'', ''v6'', ''v5'', ''v4'', ''v3'', ''v2'', ''v0''}, [0, 2, 3, 4, 5, 6, 7])"
  by (simp add: shared_name_cube_def cube_of_fields unit_block_def shared_name_store_def
        unit_cube_store_def Vertex_init_def)

lemma sorted_shared_name_cube:
  "py_sorted (\<lambda>a b. Vertex_lt (shared_name_store a) (shared_name_store b)) [0, 2, 3, 4, 5, 6, 7]
    = [0, 2, 3, 4, 5, 7, 6]"
  by (simp add: py_sorted_def shared_name_store_def unit_cube_store_def Vertex_init_def
        Vertex_lt_def)

lemma assign_shared_name_cube:
  "assign_vertexid shared_name_cube =
     Inr (shared_name_cube\<lparr>valid_vertices := Some [0, 2, 3, 4, 5, 7, 6],
            vertex_store := assign_index shared_name_store 0 [0, 2, 3, 4, 5, 7, 6]\<rparr>)"
proof -
  have st: "vertex_store shared_name_cube = shared_name_store"
    by (simp add: shared_name_cube_def cube_of_fields)
  show ?thesis
    unfolding assign_vertexid_def gather_shared_name_cube
    by (simp only: sum.case prod.case Let_def st sorted_shared_name_cube)
qed

text \<open>
  C1 says that \<open>valid_vertices\<close> ends up ordered by \<open>(z, y, x)\<close>. The code does not do
  that: \<open>Vertex.__lt__\<close> compares \<open>(self.z, self.y, self.x)\<close> with \<open>(rhs.z, rhs.y, rhs.z)\<close>.
  On the unit cube the vertex \<open>v2 = (1, 1, 0)\<close> gets the index 2 and \<open>v3 = (0, 1, 0)\<close> the
  index 3, although \<open>(z, y, x)\<close> of \<open>v2\<close> is \<open>(0, 1, 1)\<close>, above \<open>(0, 1, 0)\<close> of \<open>v3\<close>.
\<close>

theorem assign_vertexid_unit_cube_order:
  "valid_vertices_after_assign unit_cube = Inr (Some [0, 1, 2, 3, 4, 5, 7, 6])
   \<and> vertex_after_assign unit_cube 2 = Inr ((Vertex_init 1 1 0 ''v2'')\<lparr>vertex_index := Some 2\<rparr>)
   \<and> vertex_after_assign unit_cube 3 = Inr ((Vertex_init 0 1 0 ''v3'')\<lparr>vertex_index := Some 3\<rparr>)
   \<and> \<not> zyx ((Vertex_init 1 1 0 ''v2'')\<lparr>vertex_index := Some 2\<rparr>)
        \<le> zyx ((Vertex_init 0 1 0 ''v3'')\<lparr>vertex_index := Some 3\<rparr>)"
proof -
  have z: "\<not> zyx ((Vertex_init 1 1 0 ''v2'')\<lparr>vertex_index := Some 2\<rparr>)
        \<le> zyx ((Vertex_init 0 1 0 ''v3'')\<lparr>vertex_index := Some 3\<rparr>)"
    by (simp add: zyx_def Vertex_init_def)
  have v: "valid_vertices_after_assign unit_cube = Inr (Some [0, 1, 2, 3, 4, 5, 7, 6])"
    by (simp add: valid_vertices_after_assign_def assign_unit_cube)
  have i2: "vertex_after_assign unit_cube 2 =
      Inr ((Vertex_init 1 1 0 ''v2'')\<lparr>vertex_index := Some 2\<rparr>)"
    by (simp add: vertex_after_assign_def assign_unit_cube)
       (simp add: unit_cube_store_def Vertex_init_def eval_nat_numeral)
  have i3: "vertex_after_assign unit_cube 3 =
      Inr ((Vertex_init 0 1 0 ''v3'')\<lparr>vertex_index := Some 3\<rparr>)"
    by (simp add: vertex_after_assign_def assign_unit_cube)
       (simp add: unit_cube_store_def Vertex_init_def eval_nat_numeral)
  from v i2 i3 z show ?thesis by blast
qed


text \<open>
  C2, as amended. Let every name of every block be in the registry, and let the records
  that the blocks refer to carry pairwise different \<open>name\<close> attributes (the scan keeps
  one record per \<open>name\<close> attribute, not per object). Then \<open>assign_vertexid\<close> returns;
  \<open>valid_vertices\<close> lists each of the \<open>N\<close> records referred to by a block exactly once;
  the record at position \<open>i\<close> has the index \<open>i\<close>, so the indices are a bijection from these
  records to \<open>0..N-1\<close>; a record that no block refers to is left as it was, index
  included, and the text of \<open>format_vertices_section\<close> does not depend on it.
\<close>

theorem assign_vertexid_bijection:
  assumes names: "\<forall>b\<in>set (map snd (blocks self)). set (hexblock_vnames b) \<subseteq> dom (vertices self)"
    and inj: "inj_on (\<lambda>a. vertex_name (vertex_store self a)) (block_refs self)"
  shows "\<exists>self' vv. assign_vertexid self = Inr self' \<and> valid_vertices self' = Some vv
     \<and> distinct vv \<and> set vv = block_refs self \<and> length vv = card (block_refs self)
     \<and> (\<forall>i<length vv. vertex_index (vertex_store self' (vv ! i)) = Some i)
     \<and> bij_betw (\<lambda>a. the (vertex_index (vertex_store self' a))) (block_refs self)
          {0..<card (block_refs self)}
     \<and> (\<forall>a. a \<notin> block_refs self \<longrightarrow> vertex_store self' a = vertex_store self a)
     \<and> (\<forall>a v. a \<notin> block_refs self \<longrightarrow>
           format_vertices_section fmt_g iter_set
             (self'\<lparr>vertex_store := (vertex_store self')(a := v)\<rparr>) =
           format_vertices_section fmt_g iter_set self')"
proof -
  let ?nm = "\<lambda>a. vertex_name (vertex_store self a)"
  from assign_vertexid_total[OF names] obtain self' where r: "assign_vertexid self = Inr self'"
    by blast
  from assign_vertexid_result[OF r] obtain vv where
    vv: "valid_vertices self' = Some vv" and
    st: "vertex_store self' = assign_index (vertex_store self) 0 vv" and
    dn: "distinct (map ?nm vv)" and sub: "set vv \<subseteq> block_refs self" and
    cover: "\<forall>a\<in>block_refs self. \<exists>b\<in>set vv. ?nm b = ?nm a" by blast
  have d: "distinct vv" using dn by (rule distinct_map[THEN iffD1, THEN conjunct1])
  have eq: "set vv = block_refs self"
  proof
    show "set vv \<subseteq> block_refs self" by (rule sub)
    show "block_refs self \<subseteq> set vv"
    proof
      fix a assume a: "a \<in> block_refs self"
      with cover obtain b where b: "b \<in> set vv" "?nm b = ?nm a" by blast
      with sub have "b \<in> block_refs self" by blast
      from inj_onD[OF inj b(2) this a] b(1) show "a \<in> set vv" by simp
    qed
  qed
  have len: "length vv = card (block_refs self)" using d eq by (simp add: distinct_card[symmetric])
  have idx: "\<forall>i<length vv. vertex_index (vertex_store self' (vv ! i)) = Some i"
    by (simp add: st assign_index_nth[OF d])
  have bij: "bij_betw (\<lambda>a. the (vertex_index (vertex_store self' a))) (set vv) {0..<length vv}"
  proof (rule bij_betw_byWitness[where f' = "(!) vv"])
    show "\<forall>a\<in>set vv. vv ! the (vertex_index (vertex_store self' a)) = a"
      using idx by (auto simp: in_set_conv_nth)
    show "\<forall>i\<in>{0..<length vv}. the (vertex_index (vertex_store self' (vv ! i))) = i"
      using idx by simp
    show "(\<lambda>a. the (vertex_index (vertex_store self' a))) ` set vv \<subseteq> {0..<length vv}"
      using idx by (auto simp: in_set_conv_nth)
    show "(!) vv ` {0..<length vv} \<subseteq> set vv" by auto
  qed
  have frame: "\<forall>a. a \<notin> block_refs self \<longrightarrow> vertex_store self' a = vertex_store self a"
    by (simp add: st eq[symmetric] assign_index_notin)
  have out: "\<forall>a v. a \<notin> block_refs self \<longrightarrow>
           format_vertices_section fmt_g iter_set
             (self'\<lparr>vertex_store := (vertex_store self')(a := v)\<rparr>) =
           format_vertices_section fmt_g iter_set self'"
    using format_vertices_section_frame[OF vv] eq by blast
  from r vv d eq len idx bij frame out show ?thesis
    by (intro exI[of _ self'] exI[of _ vv]) simp
qed

theorem assign_vertexid_bijection_witness:
  "\<exists>self' vv. assign_vertexid unit_cube = Inr self' \<and> valid_vertices self' = Some vv
     \<and> set vv = {0, 1, 2, 3, 4, 5, 6, 7} \<and> length vv = 8
     \<and> bij_betw (\<lambda>a. the (vertex_index (vertex_store self' a))) {0, 1, 2, 3, 4, 5, 6, 7} {0..<8}
     \<and> vertex_store self' 8 = unit_cube_store 8"
proof -
  have refs: "block_refs unit_cube = {0, 1, 2, 3, 4, 5, 6, 7}"
    by (simp add: unit_cube_def block_refs_cube_of)
  have names: "\<forall>b\<in>set (map snd (blocks unit_cube)).
      set (hexblock_vnames b) \<subseteq> dom (vertices unit_cube)"
    unfolding unit_cube_def by (rule names_cube_of)
  have inj: "inj_on (\<lambda>a. vertex_name (vertex_store unit_cube a)) (block_refs unit_cube)"
    unfolding refs
    by (simp add: unit_cube_def cube_of_fields unit_cube_store_def Vertex_init_def)
  have c: "card {0, 1, 2, 3, 4, 5, 6, 7::nat} = 8" by simp
  have st: "vertex_store unit_cube = unit_cube_store"
    by (simp add: unit_cube_def cube_of_fields)
  from assign_vertexid_bijection[OF names inj] show ?thesis
    unfolding refs c st by fastforce
qed

text \<open>
  C2 as it is written fails where two different records have the same \<open>name\<close> attribute:
  in \<open>shared_name_cube\<close> the block refers to eight different records, the record at
  address 1 among them, and that record is skipped: seven records are listed and its
  index stays \<open>None\<close>.
\<close>

theorem assign_vertexid_shared_name_counterexample:
  "0 \<in> block_refs shared_name_cube \<and> 1 \<in> block_refs shared_name_cube
   \<and> card (block_refs shared_name_cube) = 8
   \<and> valid_vertices_after_assign shared_name_cube = Inr (Some [0, 2, 3, 4, 5, 7, 6])
   \<and> vertex_after_assign shared_name_cube 1 = Inr (Vertex_init 1 0 0 ''v0'')
   \<and> vertex_index (Vertex_init 1 0 0 ''v0'') = None"
proof -
  have v: "valid_vertices_after_assign shared_name_cube = Inr (Some [0, 2, 3, 4, 5, 7, 6])"
    by (simp add: valid_vertices_after_assign_def assign_shared_name_cube)
  have "assign_index shared_name_store 0 [0, 2, 3, 4, 5, 7, 6] 1 = shared_name_store 1"
    by (rule assign_index_notin) simp
  then have i1: "vertex_after_assign shared_name_cube 1 = Inr (Vertex_init 1 0 0 ''v0'')"
    by (simp add: vertex_after_assign_def assign_shared_name_cube shared_name_store_def
          del: assign_index.simps)
  show ?thesis
    using v i1 by (simp add: shared_name_cube_def block_refs_cube_of Vertex_init_def)
qed

end
